theory Spec2Isabelle
  imports Main "HOL-Library.AList"
begin

section \<open>JavaScript values\<close>

text \<open>
  The facade in \<^verbatim>\<open>src/index.js\<close> is dynamically typed. Its values are modelled by
  one datatype. Numbers are the integers (account ids, counts, routing types and
  versions are integers on chain); an object is the list of its own properties in
  insertion order.
\<close>

datatype jsval =
    JUndefined
  | JNull
  | JBool bool
  | JNum int
  | JStr string
  | JArr "jsval list"
  | JObj "(string \<times> jsval) list"

type_synonym jsobj = "(string \<times> jsval) list"

datatype js_error =
    TypeError
  | ReferenceError string
  | Error string
  | Reason jsval

text \<open>\<^verbatim>\<open>!v\<close> is \<open>\<not> truthy v\<close>.\<close>

fun truthy :: "jsval \<Rightarrow> bool" where
  "truthy JUndefined = False"
| "truthy JNull = False"
| "truthy (JBool b) = b"
| "truthy (JNum n) = (n \<noteq> 0)"
| "truthy (JStr s) = (s \<noteq> [])"
| "truthy (JArr xs) = True"
| "truthy (JObj kvs) = True"

text \<open>An array index written as a property key: a canonical decimal numeral.\<close>

definition digit_of :: "char \<Rightarrow> nat option" where
  "digit_of c = map_of (zip ''0123456789'' [0, 1, 2, 3, 4, 5, 6, 7, 8, 9]) c"

fun digits_val :: "nat \<Rightarrow> string \<Rightarrow> nat option" where
  "digits_val acc [] = Some acc"
| "digits_val acc (c # cs) =
     (case digit_of c of None \<Rightarrow> None | Some d \<Rightarrow> digits_val (10 * acc + d) cs)"

definition index_of_key :: "string \<Rightarrow> nat option" where
  "index_of_key k =
     (if k = [] \<or> (hd k = CHR ''0'' \<and> tl k \<noteq> []) then None else digits_val 0 k)"

text \<open>
  \<^verbatim>\<open>v.k\<close> and \<^verbatim>\<open>v[k]\<close>: reading a property of \<^verbatim>\<open>undefined\<close> or \<^verbatim>\<open>null\<close> throws a
  TypeError; a property that is not there reads as \<^verbatim>\<open>undefined\<close>. Only own and
  indexed properties are modelled (the facade reads no built-in property).
\<close>

fun get_prop :: "jsval \<Rightarrow> string \<Rightarrow> js_error + jsval" where
  "get_prop JUndefined k = Inl TypeError"
| "get_prop JNull k = Inl TypeError"
| "get_prop (JObj kvs) k = Inr (case map_of kvs k of None \<Rightarrow> JUndefined | Some v \<Rightarrow> v)"
| "get_prop (JArr xs) k =
     Inr (case index_of_key k of
            None \<Rightarrow> JUndefined
          | Some i \<Rightarrow> if i < length xs then xs ! i else JUndefined)"
| "get_prop (JStr s) k =
     Inr (case index_of_key k of
            None \<Rightarrow> JUndefined
          | Some i \<Rightarrow> if i < length s then JStr [s ! i] else JUndefined)"
| "get_prop (JBool b) k = Inr JUndefined"
| "get_prop (JNum n) k = Inr JUndefined"

text \<open>The same on a value known to be an object (\<^verbatim>\<open>_d.authority\<close>, \<^verbatim>\<open>_d.to\<close>, ...).\<close>

definition field :: "jsobj \<Rightarrow> string \<Rightarrow> jsval" where
  "field d k = (case map_of d k of None \<Rightarrow> JUndefined | Some v \<Rightarrow> v)"

text \<open>
  \<^verbatim>\<open>if (!_d.k) _d.k = v\<close>: an assignment replaces the property in place or appends it.
\<close>

definition default_field :: "string \<Rightarrow> jsval \<Rightarrow> jsobj \<Rightarrow> jsobj" where
  "default_field k v d = (if \<not> truthy (field d k) then AList.update k v d else d)"

text \<open>
  Conversions. \<open>Number_string\<close> stands for the built-in \<^verbatim>\<open>Number\<close> applied to a
  string: \<open>None\<close> is NaN or an infinity. It is a parameter: the grammar of numeric
  strings (white space, signs, hexadecimal, exponents) plays no part below.
  \<open>num_of_String p v\<close> is \<^verbatim>\<open>Number(String(v))\<close>: \<^verbatim>\<open>String\<close> of a number is its numeral,
  of \<^verbatim>\<open>true\<close>, \<^verbatim>\<open>undefined\<close>, \<^verbatim>\<open>null\<close> or a plain object a word that is no number, and
  of an array its elements joined by commas, \<^verbatim>\<open>null\<close> and \<^verbatim>\<open>undefined\<close> printing as
  nothing.
\<close>

fun num_of_String :: "(string \<Rightarrow> int option) \<Rightarrow> jsval \<Rightarrow> int option" where
  "num_of_String p (JNum n) = Some n"
| "num_of_String p (JStr s) = p s"
| "num_of_String p (JArr []) = p []"
| "num_of_String p (JArr [x]) =
     (case x of JUndefined \<Rightarrow> p [] | JNull \<Rightarrow> p [] | _ \<Rightarrow> num_of_String p x)"
| "num_of_String p _ = None"

text \<open>\<^verbatim>\<open>Number(v)\<close>, which is also how \<^verbatim>\<open>==\<close> and \<^verbatim>\<open><\<close> read an operand beside a number.\<close>

fun to_number :: "(string \<Rightarrow> int option) \<Rightarrow> jsval \<Rightarrow> int option" where
  "to_number p JUndefined = None"
| "to_number p JNull = Some 0"
| "to_number p (JBool b) = Some (if b then 1 else 0)"
| "to_number p (JNum n) = Some n"
| "to_number p (JStr s) = p s"
| "to_number p (JArr xs) = num_of_String p (JArr xs)"
| "to_number p (JObj kvs) = None"

text \<open>\<^verbatim>\<open>v == n\<close> for a number \<open>n\<close>: \<^verbatim>\<open>null\<close> and \<^verbatim>\<open>undefined\<close> equal no number.\<close>

fun loose_eq_num :: "(string \<Rightarrow> int option) \<Rightarrow> jsval \<Rightarrow> int \<Rightarrow> bool" where
  "loose_eq_num p JUndefined n = False"
| "loose_eq_num p JNull n = False"
| "loose_eq_num p v n = (to_number p v = Some n)"

text \<open>\<^verbatim>\<open>v == "s"\<close> for a string: used once, on a value that is a string or \<^verbatim>\<open>undefined\<close>.\<close>

fun loose_eq_str :: "jsval \<Rightarrow> string \<Rightarrow> bool" where
  "loose_eq_str (JStr t) s = (t = s)"
| "loose_eq_str v s = False"

text \<open>\<^verbatim>\<open>a < Number(b)\<close>: false as soon as one side is NaN.\<close>

definition less_Number :: "(string \<Rightarrow> int option) \<Rightarrow> jsval \<Rightarrow> jsval \<Rightarrow> bool" where
  "less_Number p a b =
     (case to_number p a of
        None \<Rightarrow> False
      | Some x \<Rightarrow> (case to_number p b of None \<Rightarrow> False | Some y \<Rightarrow> x < y))"

section \<open>Effects\<close>

text \<open>
  A call of the facade is observed through what it hands to its collaborators and to
  the console, in order. \<open>Thrown e\<close> records an error thrown inside an \<^verbatim>\<open>async\<close>
  promise executor or handler, whose promise nobody holds.
\<close>

datatype event =
    GetAddress
  | EncodeSpells jsval
  | EncodeCall string "jsval list"
  | GetTxObj jsval
  | SendTxn jsval
  | CreateTransaction jsval
  | EstimateGas jsval
  | EstimateGnosisSafeGas jsval
  | ConsoleLog string
  | ConsoleError string
  | Thrown js_error

text \<open>How a synchronous call ends, and how the promise of an asynchronous one ends.\<close>

datatype 'a completion = Returned 'a | Threw js_error

datatype 'a promise = Resolved 'a | Rejected js_error | Pending

section \<open>Spell\<close>

record spell =
  data :: "jsval list"

definition Spell :: spell where
  "Spell = \<lparr>data = []\<rparr>"

text \<open>
  \<^verbatim>\<open>add(_s)\<close>: each guard is \<^verbatim>\<open>return console.error(...)\<close>, which logs and returns
  \<^verbatim>\<open>undefined\<close>; otherwise the operation is pushed.
\<close>

definition add :: "spell \<Rightarrow> jsval \<Rightarrow> jsval completion \<times> spell \<times> event list" where
  "add sp s =
     (case get_prop s ''connector'' of
        Inl e \<Rightarrow> (Threw e, sp, [])
      | Inr c \<Rightarrow>
          if \<not> truthy c then (Returned JUndefined, sp, [ConsoleError ''connector not defined.''])
          else (case get_prop s ''method'' of
            Inl e \<Rightarrow> (Threw e, sp, [])
          | Inr m \<Rightarrow>
              if \<not> truthy m then (Returned JUndefined, sp, [ConsoleError ''method not defined.''])
              else (case get_prop s ''args'' of
                Inl e \<Rightarrow> (Threw e, sp, [])
              | Inr a \<Rightarrow>
                  if \<not> truthy a then (Returned JUndefined, sp, [ConsoleError ''args not defined.''])
                  else (Returned JUndefined, sp\<lparr>data := data sp @ [s]\<rparr>, []))))"

text \<open>The spell after a sequence of \<^verbatim>\<open>add\<close> calls.\<close>

fun adds :: "spell \<Rightarrow> jsval list \<Rightarrow> spell" where
  "adds sp [] = sp"
| "adds sp (s # ss) = adds (fst (snd (add sp s))) ss"

text \<open>An object has a field when the property is its own.\<close>

fun has_field :: "jsval \<Rightarrow> string \<Rightarrow> bool" where
  "has_field (JObj kvs) k = (map_of kvs k \<noteq> None)"
| "has_field v k = False"

definition has_all_fields :: "jsval \<Rightarrow> bool" where
  "has_all_fields s = (has_field s ''connector'' \<and> has_field s ''method'' \<and> has_field s ''args'')"

section \<open>Collaborators\<close>

text \<open>
  Everything the facade delegates to lies outside \<^verbatim>\<open>src/index.js\<close> and is a parameter
  of the model: the contract library handed to the constructor, the address and
  interface registries, the internal helper, the cast and transaction utilities, the
  account resolver, and the multi-signature integration \<^verbatim>\<open>this.gnosisSafe\<close> (which the
  constructor never installs: \<open>None\<close> is \<^verbatim>\<open>undefined\<close>). A call that throws or whose
  promise rejects answers \<open>Inl\<close>. \<^verbatim>\<open>encodeSpells\<close> and \<^verbatim>\<open>getTxObj\<close> are handed the
  caller's parameter object itself, which the facade reads again after the call: they
  answer with their result and with the object as they leave it.
\<close>

record web3_method =
  encodeABI :: "js_error + jsval"
  call :: "js_error + jsval"

record web3_contract =
  methods :: "string \<Rightarrow> (jsval list \<Rightarrow> js_error + web3_method) option"

record gnosis =
  createTransaction :: "jsval \<Rightarrow> js_error + jsval"
  estimateGnosisSafeGas :: "jsval \<Rightarrow> js_error + jsval"

record env =
  Contract :: "jsval \<Rightarrow> jsval \<Rightarrow> js_error + web3_contract"
  genesis :: jsval
  core_index_address :: jsval
  core_index_ABI :: jsval
  core_account_ABI :: jsval
  read_ABI :: jsobj
  read_address :: jsobj
  getAddress :: "js_error + jsval"
  encodeSpells :: "jsobj \<Rightarrow> (js_error + jsval list) \<times> jsobj"
  getTxObj :: "jsobj \<Rightarrow> (js_error + jsval) \<times> jsobj"
  estimateGas :: "jsval \<Rightarrow> js_error + jsval"
  sendTxn :: "jsval \<Rightarrow> js_error + jsval"
  account_count :: "js_error + jsval"
  gnosisSafe_util :: "gnosis option"
  Number_string :: "string \<Rightarrow> int option"

text \<open>Records an event in front of what follows it.\<close>

definition after :: "event \<Rightarrow> 'a \<times> event list \<Rightarrow> 'a \<times> event list" where
  "after ev r = (fst r, ev # snd r)"

definition settled :: "js_error + 'a \<Rightarrow> 'a promise \<times> event list" where
  "settled r = (case r of Inl e \<Rightarrow> (Rejected e, []) | Inr v \<Rightarrow> (Resolved v, []))"

text \<open>
  \<^verbatim>\<open>new Contract(abi, addr).methods[name](...args).encodeABI()\<close>, the call data when
  every step succeeds; calling a method the contract does not have is a TypeError.
\<close>

definition encode_call :: "env \<Rightarrow> jsval \<Rightarrow> jsval \<Rightarrow> string \<Rightarrow> jsval list \<Rightarrow> js_error + jsval" where
  "encode_call env abi addr name cargs =
     (case Contract env abi addr of
        Inl e \<Rightarrow> Inl e
      | Inr c \<Rightarrow>
          (case methods c name of
             None \<Rightarrow> Inl TypeError
           | Some f \<Rightarrow> (case f cargs of Inl e \<Rightarrow> Inl e | Inr m \<Rightarrow> encodeABI m)))"

text \<open>
  The same steps inside an \<^verbatim>\<open>async\<close> function, followed by \<open>k\<close> on the call data: a
  throw at any of them rejects the promise of the function. The encode event is
  recorded when the method is called, that is once the contract has been constructed
  and has the method.
\<close>

definition encoded_then ::
  "env \<Rightarrow> jsval \<Rightarrow> jsval \<Rightarrow> string \<Rightarrow> jsval list \<Rightarrow> (jsval \<Rightarrow> 'a promise \<times> event list)
     \<Rightarrow> 'a promise \<times> event list" where
  "encoded_then env abi addr name cargs k =
     (case Contract env abi addr of
        Inl e \<Rightarrow> (Rejected e, [])
      | Inr c \<Rightarrow>
          (case methods c name of
             None \<Rightarrow> (Rejected TypeError, [])
           | Some f \<Rightarrow>
               after (EncodeCall name cargs)
                 (case f cargs of
                    Inl e \<Rightarrow> (Rejected e, [])
                  | Inr m \<Rightarrow> (case encodeABI m of Inl e \<Rightarrow> (Rejected e, []) | Inr cd \<Rightarrow> k cd))))"

section \<open>The facade\<close>

record config =
  type :: jsval
  gnosisSafe :: jsval

record dsa_instance =
  dsa_id :: jsval
  address :: jsval
  version :: jsval
  config :: "config option"

record dsa =
  mode :: string
  privateKey :: "string option"
  cur_instance :: dsa_instance
  origin :: jsval
  node :: jsval

record ctor_config =
  cfg_mode :: "string option"
  cfg_privateKey :: "string option"

definition to_lower :: "char \<Rightarrow> char" where
  "to_lower c =
     (let n = (of_char c :: nat) in if 65 \<le> n \<and> n \<le> 90 then char_of (n + 32) else c)"

text \<open>
  The constructor (first class of the file). In node mode without a private key it
  logs and returns before any further field is set: the facade it leaves has no
  instance, registry or helper, and is \<open>None\<close> here. Otherwise the instance it installs
  has an id, an address and a version, and no \<^verbatim>\<open>config\<close>; \<^verbatim>\<open>this.node\<close> is never
  assigned.
\<close>

definition "constructor" :: "env \<Rightarrow> ctor_config option \<Rightarrow> dsa option \<times> event list" where
  "constructor env cfg =
     (let m = (case cfg of
                 None \<Rightarrow> ''browser''
               | Some c \<Rightarrow>
                   (case cfg_mode c of
                      None \<Rightarrow> ''browser''
                    | Some s \<Rightarrow> if s = [] then ''browser'' else map to_lower s));
          pk = (case cfg of None \<Rightarrow> None | Some c \<Rightarrow> cfg_privateKey c)
      in if m = ''node'' \<and> (pk = None \<or> pk = Some [])
         then (None, [ConsoleError ''private-key-not-defined''])
         else (Some \<lparr>mode = m,
                 privateKey =
                   (if m = ''node''
                    then map_option (\<lambda>k. if take 2 k \<noteq> ''0x'' then ''0x'' @ k else k) pk
                    else None),
                 cur_instance =
                   \<lparr>dsa_id = JNum 0, address = genesis env, version = JNum 1, config = None\<rparr>,
                 origin = genesis env,
                 node = JUndefined\<rparr>, []))"

definition setOrigin :: "dsa \<Rightarrow> jsval \<Rightarrow> dsa" where
  "setOrigin d ori = d\<lparr>origin := ori\<rparr>"

subsection \<open>read\<close>

record read_spec =
  protocol :: string
  method_name :: string
  args :: "jsval list"

text \<open>
  \<^verbatim>\<open>read(_s)\<close>: the registries are indexed by the protocol name, an absent name
  reading as \<^verbatim>\<open>undefined\<close>; a throw of the contract constructor rejects the promise
  of the \<^verbatim>\<open>async\<close> function, a throw inside the (synchronous) executor rejects the
  promise it builds.
\<close>

definition read :: "env \<Rightarrow> read_spec \<Rightarrow> jsval promise" where
  "read env s =
     (case Contract env (field (read_ABI env) (protocol s)) (field (read_address env) (protocol s)) of
        Inl e \<Rightarrow> Rejected e
      | Inr c \<Rightarrow>
          (case methods c (method_name s) of
             None \<Rightarrow> Rejected TypeError
           | Some f \<Rightarrow>
               (case f (args s) of
                  Inl e \<Rightarrow> Rejected e
                | Inr m \<Rightarrow> (case call m of Inl e \<Rightarrow> Rejected e | Inr res \<Rightarrow> Resolved res))))"

subsection \<open>setInstance (first class)\<close>

fun typeof_object :: "jsval \<Rightarrow> bool" where
  "typeof_object JNull = True"
| "typeof_object (JArr xs) = True"
| "typeof_object (JObj kvs) = True"
| "typeof_object v = False"

text \<open>The id the lookup is made with, or the error of the two guards.\<close>

definition setInstance_id :: "env \<Rightarrow> jsval \<Rightarrow> js_error + jsval" where
  "setInstance_id env ob =
     (case (if typeof_object ob
            then (case get_prop ob ''id'' of
                    Inl e \<Rightarrow> Inl e
                  | Inr i \<Rightarrow> if \<not> truthy i then Inl (Error ''`dsaId` is not defined.'') else Inr i)
            else Inr ob) of
        Inl e \<Rightarrow> Inl e
      | Inr i \<Rightarrow>
          if num_of_String (Number_string env) i = None then Inl (Error ''Invaild `dsaId`.'')
          else Inr i)"

text \<open>
  The \<^verbatim>\<open>catch\<close> handler. It is \<^verbatim>\<open>async\<close>: when the count itself fails, neither
  \<^verbatim>\<open>reject\<close> is reached.
\<close>

definition setInstance_catch ::
  "env \<Rightarrow> dsa \<Rightarrow> jsval \<Rightarrow> js_error \<Rightarrow> dsa_instance promise \<times> dsa \<times> event list" where
  "setInstance_catch env d i err =
     (case account_count env of
        Inl e \<Rightarrow> (Pending, d, [Thrown e])
      | Inr c \<Rightarrow>
          if less_Number (Number_string env) c i
          then (Rejected (Reason (JStr ''dsaId does not exist. Run `dsa.build()` to create new DSA.'')),
                d, [])
          else (Rejected err, d, []))"

text \<open>
  The \<^verbatim>\<open>then\<close> handler assigns the three fields one after the other; a throw in it
  (the result is \<^verbatim>\<open>undefined\<close> or \<^verbatim>\<open>null\<close>) is caught by the same \<^verbatim>\<open>catch\<close>.
\<close>

definition setInstance :: "env \<Rightarrow> dsa \<Rightarrow> jsval \<Rightarrow> dsa_instance promise \<times> dsa \<times> event list" where
  "setInstance env d ob =
     (case setInstance_id env ob of
        Inl e \<Rightarrow> (Rejected e, d, [])
      | Inr i \<Rightarrow>
          (case read env \<lparr>protocol = ''core'', method_name = ''getAccountIdDetails'', args = [i]\<rparr> of
             Pending \<Rightarrow> (Pending, d, [])
           | Rejected err \<Rightarrow> setInstance_catch env d i err
           | Resolved res \<Rightarrow>
               (case get_prop res ''0'' of
                  Inl e \<Rightarrow> setInstance_catch env d i e
                | Inr r0 \<Rightarrow>
                    let d0 = d\<lparr>cur_instance := (cur_instance d)\<lparr>dsa_id := r0\<rparr>\<rparr> in
                    (case get_prop res ''1'' of
                       Inl e \<Rightarrow> setInstance_catch env d0 i e
                     | Inr r1 \<Rightarrow>
                         let d1 = d0\<lparr>cur_instance := (cur_instance d0)\<lparr>address := r1\<rparr>\<rparr> in
                         (case get_prop res ''2'' of
                            Inl e \<Rightarrow> setInstance_catch env d1 i e
                          | Inr r2 \<Rightarrow>
                              let d2 = d1\<lparr>cur_instance := (cur_instance d1)\<lparr>version := r2\<rparr>\<rparr>
                              in (Resolved (cur_instance d2), d2, []))))))"

definition setAccount :: "env \<Rightarrow> dsa \<Rightarrow> jsval \<Rightarrow> dsa_instance promise \<times> dsa \<times> event list" where
  "setAccount env d ob = setInstance env d ob"

subsection \<open>build and buildTxObj\<close>

text \<open>
  The parameter object of \<^verbatim>\<open>build\<close> and \<^verbatim>\<open>buildTxObj\<close> is an object or is not given
  (\<open>None\<close>), in which case \<^verbatim>\<open>if (!_d) _d = {}\<close> starts from the empty object.
  \<open>build_params\<close> is the object after the four defaults and the assignment of
  \<^verbatim>\<open>_d.to\<close>.
\<close>

definition build_params :: "env \<Rightarrow> dsa \<Rightarrow> jsval \<Rightarrow> jsobj option \<Rightarrow> jsobj" where
  "build_params env d addr p =
     AList.update ''to'' (core_index_address env)
       (default_field ''from'' addr
         (default_field ''origin'' (origin d)
           (default_field ''version'' (JNum 1)
             (default_field ''authority'' addr (case p of None \<Rightarrow> [] | Some x \<Rightarrow> x)))))"

text \<open>
  The last two steps of \<^verbatim>\<open>build\<close> run inside \<^verbatim>\<open>new Promise(async ...)\<close>: a rejection
  of \<^verbatim>\<open>getTxObj\<close> there is thrown in the executor and settles nothing.
\<close>

definition build_send :: "env \<Rightarrow> jsobj \<Rightarrow> jsval promise \<times> event list" where
  "build_send env d2 =
     after (GetTxObj (JObj d2))
      (case getTxObj env d2 of
         (Inl e, d3) \<Rightarrow> (Pending, [Thrown e])
       | (Inr tx, d3) \<Rightarrow> after (SendTxn tx) (settled (sendTxn env tx)))"

definition build :: "env \<Rightarrow> dsa \<Rightarrow> jsobj option \<Rightarrow> jsval promise \<times> event list" where
  "build env d p =
     after GetAddress
      (case getAddress env of
         Inl e \<Rightarrow> (Rejected e, [])
       | Inr addr \<Rightarrow>
           let d1 = build_params env d addr p
           in encoded_then env (core_index_ABI env) (core_index_address env) ''build''
                [field d1 ''authority'', field d1 ''version'', field d1 ''origin'']
                (\<lambda>cd. build_send env (AList.update ''callData'' cd d1)))"

text \<open>
  \<^verbatim>\<open>buildTxObj(_d)\<close> declares no \<^verbatim>\<open>_addr\<close> (nor does the module): evaluating
  \<^verbatim>\<open>_d.authority = _addr\<close> is a ReferenceError, which rejects the promise of the
  \<^verbatim>\<open>async\<close> function. It has no default for \<^verbatim>\<open>_d.from\<close>.
\<close>

definition buildTxObj :: "env \<Rightarrow> dsa \<Rightarrow> jsobj option \<Rightarrow> jsval promise \<times> event list" where
  "buildTxObj env d p =
     (let d0 = (case p of None \<Rightarrow> [] | Some x \<Rightarrow> x)
      in if \<not> truthy (field d0 ''authority'') then (Rejected (ReferenceError ''_addr''), [])
         else
           let d1 = AList.update ''to'' (core_index_address env)
                      (default_field ''origin'' (origin d) (default_field ''version'' (JNum 1) d0))
           in encoded_then env (core_index_ABI env) (core_index_address env) ''build''
                [field d1 ''authority'', field d1 ''version'', field d1 ''origin'']
                (\<lambda>cd. let d2 = AList.update ''callData'' cd d1
                      in after (GetTxObj (JObj d2)) (settled (fst (getTxObj env d2)))))"

subsection \<open>cast, castTxObj, estimateCastGas (first class)\<close>

text \<open>
  The multi-signature branch of \<^verbatim>\<open>cast\<close>. \<^verbatim>\<open>if (this.node == "node") reject(...)\<close>
  does not return: the promise is rejected and the branch goes on. A promise settles
  once: \<open>first_settled\<close> keeps that rejection whatever follows.
\<close>

definition first_settled :: "bool \<Rightarrow> 'a promise \<Rightarrow> 'a promise" where
  "first_settled rejected r =
     (if rejected
      then Rejected (Reason (JStr ''Gnosis-Safe integration is not available on `node` mode''))
      else r)"

definition cast_gnosis :: "env \<Rightarrow> dsa \<Rightarrow> config \<Rightarrow> jsval \<Rightarrow> jsval promise \<times> event list" where
  "cast_gnosis env d cfg tx =
     (let rej = loose_eq_str (node d) ''node''
      in after (ConsoleLog ''Casting spells to Gnosis Safe.'')
          (if \<not> truthy (gnosisSafe cfg)
           then (first_settled rej Pending,
                 [Thrown (Error ''`safeAddress` is not defined. Run `await dsa.setInstance(dsaId, { gnosisSafe: safeAddr })`'')])
           else
             (case gnosisSafe_util env of
                None \<Rightarrow> (first_settled rej Pending, [Thrown TypeError])
              | Some g \<Rightarrow>
                  (case get_prop tx ''from'' of
                     Inl e \<Rightarrow> (first_settled rej Pending, [Thrown e])
                   | Inr frm \<Rightarrow>
                       let arg = JObj [(''safeAddress'', gnosisSafe cfg),
                                       (''from'', frm),
                                       (''to'', case get_prop tx ''to'' of Inl e \<Rightarrow> JUndefined | Inr v \<Rightarrow> v),
                                       (''valueInWei'', case get_prop tx ''value'' of Inl e \<Rightarrow> JUndefined | Inr v \<Rightarrow> v),
                                       (''txData'', case get_prop tx ''data'' of Inl e \<Rightarrow> JUndefined | Inr v \<Rightarrow> v)]
                       in after (CreateTransaction arg)
                           (first_settled rej (fst (settled (createTransaction g arg))), [])))))"

text \<open>
  The branches of the executor of \<^verbatim>\<open>cast\<close> on \<open>ty\<close>, the value of \<^verbatim>\<open>_d.type\<close> when
  they are reached. The executor is \<^verbatim>\<open>async\<close>: the \<^verbatim>\<open>throw\<close> of its last branch is
  not a rejection of the promise \<^verbatim>\<open>cast\<close> returns.
\<close>

definition cast_submit :: "env \<Rightarrow> dsa \<Rightarrow> config \<Rightarrow> jsval \<Rightarrow> jsval \<Rightarrow> jsval promise \<times> event list" where
  "cast_submit env d cfg ty tx =
     (if loose_eq_num (Number_string env) ty 0
      then after (ConsoleLog ''Casting spells to DSA.'')
             (after (SendTxn tx) (settled (sendTxn env tx)))
      else if loose_eq_num (Number_string env) ty 1 then cast_gnosis env d cfg tx
      else (Pending, [Thrown (Error ''`type` is not vaild'')]))"

text \<open>
  The executor of \<^verbatim>\<open>cast\<close>: it awaits \<^verbatim>\<open>getTxObj(_d)\<close> and then reads \<^verbatim>\<open>_d.type\<close> from
  the parameter object as \<^verbatim>\<open>getTxObj\<close> has left it.
\<close>

definition cast_send :: "env \<Rightarrow> dsa \<Rightarrow> config \<Rightarrow> jsobj \<Rightarrow> jsval promise \<times> event list" where
  "cast_send env d cfg d3 =
     after (GetTxObj (JObj d3))
      (case getTxObj env d3 of
         (Inl e, d4) \<Rightarrow> (Pending, [Thrown e])
       | (Inr tx, d4) \<Rightarrow> cast_submit env d cfg (field d4 ''type'') tx)"

text \<open>
  \<^verbatim>\<open>cast(_d)\<close>. Reading \<^verbatim>\<open>this.instance.config.type\<close> when the instance has no
  \<^verbatim>\<open>config\<close> is a TypeError, after the address and the spells have been asked for.
  The defaults are read from the parameter object as \<^verbatim>\<open>encodeSpells\<close> has left it.
\<close>

definition cast :: "env \<Rightarrow> dsa \<Rightarrow> jsobj \<Rightarrow> jsval promise \<times> event list" where
  "cast env d p =
     after GetAddress
      (case getAddress env of
         Inl e \<Rightarrow> (Rejected e, [])
       | Inr addr \<Rightarrow>
           after (EncodeSpells (JObj p))
            (case encodeSpells env p of
               (Inl e, p0) \<Rightarrow> (Rejected e, [])
             | (Inr espell, p0) \<Rightarrow>
                 let d1 = default_field ''origin'' (origin d)
                            (default_field ''from'' addr
                              (default_field ''to'' (address (cur_instance d)) p0))
                 in (case config (cur_instance d) of
                       None \<Rightarrow> (Rejected TypeError, [])
                     | Some cfg \<Rightarrow>
                         let d2 = AList.update ''type'' (type cfg) d1
                         in encoded_then env (core_account_ABI env) (address (cur_instance d))
                              ''cast'' (espell @ [field d2 ''origin''])
                              (\<lambda>cd. cast_send env d cfg (AList.update ''callData'' cd d2)))))"

definition castTxObj :: "env \<Rightarrow> dsa \<Rightarrow> jsobj \<Rightarrow> jsval promise \<times> event list" where
  "castTxObj env d p =
     after (EncodeSpells (JObj p))
      (case encodeSpells env p of
         (Inl e, p0) \<Rightarrow> (Rejected e, [])
       | (Inr espell, p0) \<Rightarrow>
           let d1 = default_field ''origin'' (origin d)
                      (default_field ''to'' (address (cur_instance d)) p0)
           in (case config (cur_instance d) of
                 None \<Rightarrow> (Rejected TypeError, [])
               | Some cfg \<Rightarrow>
                   let d2 = AList.update ''type'' (type cfg) d1
                   in encoded_then env (core_account_ABI env) (address (cur_instance d))
                        ''cast'' (espell @ [field d2 ''origin''])
                        (\<lambda>cd. let d3 = AList.update ''callData'' cd d2
                              in after (GetTxObj (JObj d3)) (settled (fst (getTxObj env d3))))))"

text \<open>
  \<^verbatim>\<open>estimateCastGas(_d)\<close> reads the routing type first. With a type that is neither 0
  nor 1 its executor does nothing and the promise stays pending.
\<close>

definition estimateCastGas :: "env \<Rightarrow> dsa \<Rightarrow> jsobj \<Rightarrow> jsval promise \<times> event list" where
  "estimateCastGas env d p =
     (case config (cur_instance d) of
        None \<Rightarrow> (Rejected TypeError, [])
      | Some cfg \<Rightarrow>
          if loose_eq_num (Number_string env) (type cfg) 0
          then after (EstimateGas (JObj p)) (settled (estimateGas env (JObj p)))
          else if loose_eq_num (Number_string env) (type cfg) 1
          then (let p1 = AList.update ''gnosisSafe'' (gnosisSafe cfg) p
                in case gnosisSafe_util env of
                     None \<Rightarrow> (Pending, [Thrown TypeError])
                   | Some g \<Rightarrow>
                       after (EstimateGnosisSafeGas (JObj p1))
                         (settled (estimateGnosisSafeGas g (JObj p1))))
          else (Pending, []))"

subsection \<open>cast (second class)\<close>

text \<open>
  The second class of the file has the same \<^verbatim>\<open>cast\<close> without the routing type: it
  never reads \<^verbatim>\<open>this.instance.config\<close> and always sends.
\<close>

definition cast_v2 :: "env \<Rightarrow> dsa \<Rightarrow> jsobj \<Rightarrow> jsval promise \<times> event list" where
  "cast_v2 env d p =
     after GetAddress
      (case getAddress env of
         Inl e \<Rightarrow> (Rejected e, [])
       | Inr addr \<Rightarrow>
           after (EncodeSpells (JObj p))
            (case encodeSpells env p of
               (Inl e, p0) \<Rightarrow> (Rejected e, [])
             | (Inr espell, p0) \<Rightarrow>
                 let d1 = default_field ''origin'' (origin d)
                            (default_field ''from'' addr
                              (default_field ''to'' (address (cur_instance d)) p0))
                 in encoded_then env (core_account_ABI env) (address (cur_instance d))
                      ''cast'' (espell @ [field d1 ''origin''])
                      (\<lambda>cd. let d2 = AList.update ''callData'' cd d1
                            in after (GetTxObj (JObj d2))
                                (case getTxObj env d2 of
                                   (Inl e, d3) \<Rightarrow> (Pending, [Thrown e])
                                 | (Inr tx, d3) \<Rightarrow>
                                     after (ConsoleLog ''Casting spells to DSA.'')
                                       (after (SendTxn tx) (settled (sendTxn env tx)))))))"

section \<open>encodeSpells\<close>

text \<open>
  Modelled from the spec: \<^verbatim>\<open>encodeSpells\<close> of the internal helper, whose file
  (\<^verbatim>\<open>internal.js\<close>) is not among the sources. The spec has it transform the ordered
  operation list into the parallel arrays of connector names and encoded
  per-operation call data, preserving order. The encoding of one operation from its
  connector, method and arguments is the contract library's and is the parameter
  \<open>enc\<close>.
\<close>

definition spell_entry ::
  "(jsval \<Rightarrow> jsval \<Rightarrow> jsval \<Rightarrow> js_error + jsval) \<Rightarrow> jsval \<Rightarrow> js_error + jsval \<times> jsval" where
  "spell_entry enc s =
     (case get_prop s ''connector'' of
        Inl e \<Rightarrow> Inl e
      | Inr c \<Rightarrow>
          (case get_prop s ''method'' of
             Inl e \<Rightarrow> Inl e
           | Inr m \<Rightarrow>
               (case get_prop s ''args'' of
                  Inl e \<Rightarrow> Inl e
                | Inr a \<Rightarrow> (case enc c m a of Inl e \<Rightarrow> Inl e | Inr cd \<Rightarrow> Inr (c, cd)))))"

fun encodeSpells_spec ::
  "(jsval \<Rightarrow> jsval \<Rightarrow> jsval \<Rightarrow> js_error + jsval) \<Rightarrow> jsval list
     \<Rightarrow> js_error + jsval list \<times> jsval list" where
  "encodeSpells_spec enc [] = Inr ([], [])"
| "encodeSpells_spec enc (s # ss) =
     (case spell_entry enc s of
        Inl e \<Rightarrow> Inl e
      | Inr (c, cd) \<Rightarrow>
          (case encodeSpells_spec enc ss of
             Inl e \<Rightarrow> Inl e
           | Inr (ta, eda) \<Rightarrow> Inr (c # ta, cd # eda)))"

text \<open>A valid spell: the three fields are there and the operation encodes.\<close>

definition valid_spell :: "(jsval \<Rightarrow> jsval \<Rightarrow> jsval \<Rightarrow> js_error + jsval) \<Rightarrow> jsval \<Rightarrow> bool" where
  "valid_spell enc s = (has_all_fields s \<and> \<not> isl (spell_entry enc s))"

section \<open>Observations on a trace\<close>

fun is_submission :: "event \<Rightarrow> bool" where
  "is_submission (SendTxn tx) = True"
| "is_submission (CreateTransaction tx) = True"
| "is_submission ev = False"

fun is_encoding :: "event \<Rightarrow> bool" where
  "is_encoding (EncodeSpells d) = True"
| "is_encoding (EncodeCall name cargs) = True"
| "is_encoding ev = False"

fun is_rejected :: "'a promise \<Rightarrow> bool" where
  "is_rejected (Rejected e) = True"
| "is_rejected r = False"

section \<open>A sample session\<close>

text \<open>
  A concrete set of collaborators, for evaluating the facade: an interface descriptor
  is the array of its method names, the contract library refuses a missing interface
  (as the library the facade is written for does), a method encodes to its name and
  arguments, account 7 exists out of 10, and the transaction object is the parameter
  object itself, which the helpers leave as they find it.
\<close>

definition sample_contract :: "jsval \<Rightarrow> jsval \<Rightarrow> js_error + web3_contract" where
  "sample_contract abi addr =
     (case abi of
        JArr names \<Rightarrow>
          Inr \<lparr>methods = (\<lambda>name.
                 if JStr name \<in> set names
                 then Some (\<lambda>cargs.
                        Inr \<lparr>encodeABI = Inr (JArr (JStr name # cargs)),
                             call = (if cargs = [JNum 7]
                                     then Inr (JArr [JStr ''7'', JStr ''0xAcc7'', JStr ''1''])
                                     else Inl (Error ''execution reverted''))\<rparr>)
                 else None)\<rparr>
      | _ \<Rightarrow> Inl (Error ''You must provide the json interface of the contract''))"

definition sample_env :: env where
  "sample_env =
     \<lparr>Contract = sample_contract,
      genesis = JStr ''0xGenesis'',
      core_index_address = JStr ''0xIndex'',
      core_index_ABI = JArr [JStr ''build''],
      core_account_ABI = JArr [JStr ''cast''],
      read_ABI = [(''core'', JArr [JStr ''getAccountIdDetails''])],
      read_address = [(''core'', JStr ''0xCoreRead'')],
      getAddress = Inr (JStr ''0xSigner''),
      encodeSpells = (\<lambda>d. (Inr [JArr [JStr ''basic''], JArr [JStr ''0xab'']], d)),
      getTxObj = (\<lambda>d. (Inr (JObj d), d)),
      estimateGas = (\<lambda>d. Inr (JNum 21000)),
      sendTxn = (\<lambda>tx. Inr (JStr ''0xHash'')),
      account_count = Inr (JNum 10),
      gnosisSafe_util = None,
      Number_string = (\<lambda>s. if s = [] then Some 0 else map_option int (digits_val 0 s))\<rparr>"

definition sample_dsa :: dsa where
  "sample_dsa =
     \<lparr>mode = ''browser'', privateKey = None,
      cur_instance = \<lparr>dsa_id = JNum 0, address = JStr ''0xGenesis'', version = JNum 1, config = None\<rparr>,
      origin = JStr ''0xGenesis'', node = JUndefined\<rparr>"

definition sample_spells :: jsobj where
  "sample_spells =
     [(''spells'', JObj [(''data'',
        JArr [JObj [(''connector'', JStr ''basic''), (''method'', JStr ''deposit''),
                    (''args'', JArr [JNum 1])]])])]"

text \<open>The same facade once a configuration with routing type 2 has been put on its instance.\<close>

definition sample_dsa_type2 :: dsa where
  "sample_dsa_type2 =
     sample_dsa\<lparr>cur_instance :=
       (cur_instance sample_dsa)\<lparr>config := Some \<lparr>type = JNum 2, gnosisSafe = JUndefined\<rparr>\<rparr>\<rparr>"

text \<open>A session whose node answers no call: the account count fails like the lookup.\<close>

definition offline_env :: env where
  "offline_env = sample_env\<lparr>account_count := Inl (Error ''connection not open'')\<rparr>"

text \<open>An encoder of one operation and a list of two operations, for \<open>encodeSpells_spec\<close>.\<close>

definition sample_enc :: "jsval \<Rightarrow> jsval \<Rightarrow> jsval \<Rightarrow> js_error + jsval" where
  "sample_enc c m a = (case a of JArr xs \<Rightarrow> Inr (JArr (c # m # xs)) | _ \<Rightarrow> Inl TypeError)"

definition sample_ops :: "jsval list" where
  "sample_ops =
     [JObj [(''connector'', JStr ''basic''), (''method'', JStr ''deposit''), (''args'', JArr [JNum 1])],
      JObj [(''connector'', JStr ''compound''), (''method'', JStr ''borrow''), (''args'', JArr [JNum 2])]]"

text \<open>
  What \<^verbatim>\<open>read\<close> relies on for a protocol without an interface: the contract library
  either refuses to build a contract from \<^verbatim>\<open>undefined\<close>, or builds one that has no
  method of the name asked for.
\<close>

definition refuses_missing_interface :: "env \<Rightarrow> jsval \<Rightarrow> string \<Rightarrow> bool" where
  "refuses_missing_interface env addr name =
     (case Contract env JUndefined addr of
        Inl e \<Rightarrow> True
      | Inr c \<Rightarrow> methods c name = None)"

text \<open>
  A contract library that accepts anything: it builds a contract from any interface,
  \<^verbatim>\<open>undefined\<close> included, and every method of it answers \<^verbatim>\<open>undefined\<close>.
\<close>

definition lax_contract :: "jsval \<Rightarrow> jsval \<Rightarrow> js_error + web3_contract" where
  "lax_contract abi addr =
     Inr \<lparr>methods = (\<lambda>name. Some (\<lambda>cargs. Inr \<lparr>encodeABI = Inr JUndefined, call = Inr JUndefined\<rparr>))\<rparr>"

definition lax_env :: env where
  "lax_env = sample_env\<lparr>Contract := lax_contract\<rparr>"

text \<open>
  An internal helper whose \<^verbatim>\<open>getTxObj\<close> fills in a routing type that is not set with
  the direct type, on the object it is handed; and a facade whose instance has a
  configuration without a routing type.
\<close>

definition filling_env :: env where
  "filling_env =
     sample_env\<lparr>getTxObj :=
       (\<lambda>x. (Inr (JObj (if field x ''type'' = JUndefined then AList.update ''type'' (JNum 0) x else x)),
             if field x ''type'' = JUndefined then AList.update ''type'' (JNum 0) x else x))\<rparr>"

definition sample_dsa_untyped :: dsa where
  "sample_dsa_untyped =
     sample_dsa\<lparr>cur_instance :=
       (cur_instance sample_dsa)\<lparr>config := Some \<lparr>type = JUndefined, gnosisSafe = JUndefined\<rparr>\<rparr>\<rparr>"

section \<open>Basic facts\<close>

lemma index_of_key_connector: "index_of_key ''connector'' = None"
  by (simp add: index_of_key_def digit_of_def)

lemma index_of_key_method: "index_of_key ''method'' = None"
  by (simp add: index_of_key_def digit_of_def)

lemma index_of_key_args: "index_of_key ''args'' = None"
  by (simp add: index_of_key_def digit_of_def)

lemma get_prop_0: "get_prop (JArr (a # xs)) ''0'' = Inr a"
  by (simp add: index_of_key_def digit_of_def)

lemma get_prop_1: "get_prop (JArr (a # b # xs)) ''1'' = Inr b"
  by (simp add: index_of_key_def digit_of_def)

lemma get_prop_2: "get_prop (JArr (a # b # c # xs)) ''2'' = Inr c"
  by (simp add: index_of_key_def digit_of_def)

lemma truthy_prop_has_field:
  assumes "get_prop s k = Inr v" and "truthy v" and "index_of_key k = None"
  shows "has_field s k"
  using assms by (cases s) (auto split: option.splits)

lemma field_update: "field (AList.update k v d) k' = (if k' = k then v else field d k')"
  by (simp add: field_def update_conv')

lemma field_default:
  "field (default_field k v d) k' = (if k' = k \<and> \<not> truthy (field d k) then v else field d k')"
  by (simp add: default_field_def field_update)

lemma snd_after: "snd (after ev r) = ev # snd r"
  by (simp add: after_def)

lemma snd_settled: "snd (settled r) = []"
  by (simp add: settled_def split: sum.splits)

lemma num_of_String_to_number:
  "num_of_String p v = Some n \<Longrightarrow> to_number p v = Some n"
  by (cases v) auto

section \<open>The guards of add\<close>

text \<open>
  One \<^verbatim>\<open>add\<close> either leaves the spell as it was or appends an operation that has the
  three fields.
\<close>

lemma add_data_cases:
  "fst (snd (add sp s)) = sp \<or>
   (fst (snd (add sp s)) = sp\<lparr>data := data sp @ [s]\<rparr> \<and> has_all_fields s)"
  by (auto simp: add_def has_all_fields_def index_of_key_connector index_of_key_method
      index_of_key_args split: sum.splits intro: truthy_prop_has_field)

lemma add_missing_unchanged:
  assumes "\<not> has_all_fields s"
  shows "fst (snd (add sp s)) = sp"
  using add_data_cases [of sp s] assms by auto

lemma adds_invariant:
  assumes "\<forall>x \<in> set (data sp). has_all_fields x"
  shows "\<forall>x \<in> set (data (adds sp ss)). has_all_fields x"
  using assms
proof (induction ss arbitrary: sp)
  case Nil
  then show ?case by simp
next
  case (Cons s ss)
  have "\<forall>x \<in> set (data (fst (snd (add sp s)))). has_all_fields x"
    using add_data_cases [of sp s] Cons.prems by auto
  then show ?case using Cons.IH by simp
qed

text \<open>
  C7, as the code has it: for every operation object missing the connector, the method
  or the args field, \<^verbatim>\<open>add\<close> rejects the operation by logging to the error console
  the "not defined." message of the first of connector, method and args (in this
  order) that is missing or falsy, and returning \<^verbatim>\<open>undefined\<close>, the spell unchanged;
  it raises no error.
\<close>

theorem add_missing_logs:
  assumes "\<not> has_all_fields (JObj kvs)"
  shows "add sp (JObj kvs) =
           (Returned JUndefined, sp,
            [ConsoleError
               (if \<not> truthy (field kvs ''connector'') then ''connector not defined.''
                else if \<not> truthy (field kvs ''method'') then ''method not defined.''
                else ''args not defined.'')])"
  using assms
  by (auto simp: add_def has_all_fields_def field_def split: option.splits)

theorem add_missing_logs_witness:
  "\<not> has_all_fields (JObj [(''connector'', JStr ''basic''), (''args'', JArr [])]) \<and>
   add Spell (JObj [(''connector'', JStr ''basic''), (''args'', JArr [])])
     = (Returned JUndefined, Spell, [ConsoleError ''method not defined.''])"
  using add_missing_logs [of "[(''connector'', JStr ''basic''), (''args'', JArr [])]" Spell]
  by (simp add: has_all_fields_def field_def)

text \<open>
  C7 as stated fails: an operation without a connector is not answered by an error;
  \<^verbatim>\<open>add\<close> returns normally after logging.
\<close>

theorem add_missing_connector_not_raised:
  "add Spell (JObj [(''method'', JStr ''deposit''), (''args'', JArr [JNum 1])])
     = (Returned JUndefined, Spell, [ConsoleError ''connector not defined.''])"
  by (simp add: add_def Spell_def)

text \<open>
  C8: an operation missing the connector, the method or the args field leaves the
  operation list of the spell unchanged, so every operation in the list of a spell
  built by \<^verbatim>\<open>Spell()\<close> and any sequence of \<^verbatim>\<open>add\<close> calls has all three fields.
\<close>

theorem add_keeps_spells_complete:
  "(\<not> has_all_fields s \<longrightarrow> data (fst (snd (add sp s))) = data sp) \<and>
   (\<forall>x \<in> set (data (adds Spell ss)). has_all_fields x)"
proof
  show "\<not> has_all_fields s \<longrightarrow> data (fst (snd (add sp s))) = data sp"
    by (simp add: add_missing_unchanged)
  show "\<forall>x \<in> set (data (adds Spell ss)). has_all_fields x"
    by (rule adds_invariant) (simp add: Spell_def)
qed

theorem add_keeps_spells_complete_witness:
  "\<not> has_all_fields (JObj [(''connector'', JStr ''basic''), (''method'', JStr ''deposit'')]) \<and>
   data (fst (snd (add \<lparr>data = sample_ops\<rparr>
                     (JObj [(''connector'', JStr ''basic''), (''method'', JStr ''deposit'')]))))
     = sample_ops \<and>
   data (adds Spell
          [sample_ops ! 0,
           JObj [(''connector'', JStr ''basic''), (''method'', JStr ''deposit'')],
           sample_ops ! 1]) = sample_ops \<and>
   list_all has_all_fields sample_ops"
  using add_keeps_spells_complete
    [of "JObj [(''connector'', JStr ''basic''), (''method'', JStr ''deposit'')]"
        "\<lparr>data = sample_ops\<rparr>"
        "[sample_ops ! 0, JObj [(''connector'', JStr ''basic''), (''method'', JStr ''deposit'')],
          sample_ops ! 1]"]
  by (simp add: has_all_fields_def add_def Spell_def sample_ops_def)

section \<open>Selecting an instance and reading\<close>

lemma setInstance_id_numeric:
  assumes "setInstance_id env ob = Inr i"
  shows "\<exists>n. to_number (Number_string env) i = Some n"
proof -
  from assms have "num_of_String (Number_string env) i \<noteq> None"
    by (auto simp: setInstance_id_def split: if_splits sum.splits)
  then show ?thesis by (auto intro: num_of_String_to_number)
qed

lemma sample_id: "setInstance_id env (JNum n) = Inr (JNum n)"
  by (simp add: setInstance_id_def)

lemma sample_read_7:
  "read sample_env \<lparr>protocol = ''core'', method_name = ''getAccountIdDetails'', args = [JNum 7]\<rparr>
     = Resolved (JArr [JStr ''7'', JStr ''0xAcc7'', JStr ''1''])"
  by (simp add: read_def sample_env_def sample_contract_def field_def)

lemma sample_read_12:
  "read sample_env \<lparr>protocol = ''core'', method_name = ''getAccountIdDetails'', args = [JNum 12]\<rparr>
     = Rejected (Error ''execution reverted'')"
  by (simp add: read_def sample_env_def sample_contract_def field_def)

lemma offline_read_12:
  "read offline_env \<lparr>protocol = ''core'', method_name = ''getAccountIdDetails'', args = [JNum 12]\<rparr>
     = Rejected (Error ''execution reverted'')"
  by (simp add: read_def offline_env_def sample_env_def sample_contract_def field_def)

text \<open>
  C3: when the id passes the guards of \<^verbatim>\<open>setInstance\<close> and the lookup of its details
  resolves with a tuple \<open>res\<close>, the id, the address and the version of the current
  instance become \<^verbatim>\<open>res[0]\<close>, \<^verbatim>\<open>res[1]\<close> and \<^verbatim>\<open>res[2]\<close>, nothing else of the facade
  changes, and the promise resolves with that instance.
\<close>

theorem setInstance_populates:
  assumes "setInstance_id env ob = Inr i"
    and "read env \<lparr>protocol = ''core'', method_name = ''getAccountIdDetails'', args = [i]\<rparr>
           = Resolved res"
    and "get_prop res ''0'' = Inr r0"
    and "get_prop res ''1'' = Inr r1"
    and "get_prop res ''2'' = Inr r2"
  shows "setInstance env d ob =
           (Resolved ((cur_instance d)\<lparr>dsa_id := r0, address := r1, version := r2\<rparr>),
            d\<lparr>cur_instance := (cur_instance d)\<lparr>dsa_id := r0, address := r1, version := r2\<rparr>\<rparr>,
            [])"
  using assms by (simp add: setInstance_def Let_def)

theorem setInstance_populates_witness:
  "setInstance_id sample_env (JNum 7) = Inr (JNum 7) \<and>
   setInstance sample_env sample_dsa (JNum 7) =
     (Resolved \<lparr>dsa_id = JStr ''7'', address = JStr ''0xAcc7'', version = JStr ''1'', config = None\<rparr>,
      sample_dsa\<lparr>cur_instance :=
        \<lparr>dsa_id = JStr ''7'', address = JStr ''0xAcc7'', version = JStr ''1'', config = None\<rparr>\<rparr>,
      [])"
  using setInstance_populates
    [OF sample_id sample_read_7 get_prop_0 get_prop_1 get_prop_2, of sample_dsa]
  by (simp add: sample_dsa_def sample_id)

text \<open>
  When the lookup fails and the account count is obtained, the promise is rejected:
  with the "does not exist" message exactly when the count is below the id, and with
  the error of the lookup otherwise.
\<close>

lemma setInstance_lookup_failure:
  assumes "setInstance_id env ob = Inr i"
    and "read env \<lparr>protocol = ''core'', method_name = ''getAccountIdDetails'', args = [i]\<rparr>
           = Rejected err"
    and "account_count env = Inr c"
    and "to_number (Number_string env) c = Some cnt"
  shows "\<exists>n. to_number (Number_string env) i = Some n \<and>
           setInstance env d ob =
             (if cnt < n
              then Rejected (Reason (JStr ''dsaId does not exist. Run `dsa.build()` to create new DSA.''))
              else Rejected err, d, [])"
proof -
  from setInstance_id_numeric [OF assms(1)]
  obtain n where n: "to_number (Number_string env) i = Some n" by blast
  with assms have "setInstance env d ob =
             (if cnt < n
              then Rejected (Reason (JStr ''dsaId does not exist. Run `dsa.build()` to create new DSA.''))
              else Rejected err, d, [])"
    by (simp add: setInstance_def setInstance_catch_def less_Number_def)
  with n show ?thesis by blast
qed

lemma setInstance_unknown_id:
  "setInstance sample_env sample_dsa (JNum 12) =
     (Rejected (Reason (JStr ''dsaId does not exist. Run `dsa.build()` to create new DSA.'')),
      sample_dsa, [])"
  by (simp add: setInstance_def setInstance_catch_def sample_id sample_read_12)
     (simp add: sample_env_def less_Number_def)

text \<open>
  C4, where the code departs from it: when the lookup fails and the count fails as
  well, the \<^verbatim>\<open>async\<close> handler throws at its \<^verbatim>\<open>await\<close>; neither \<^verbatim>\<open>reject\<close> is
  reached and the promise of \<^verbatim>\<open>setInstance\<close> is never settled.
\<close>

theorem setInstance_count_failure:
  assumes "setInstance_id env ob = Inr i"
    and "read env \<lparr>protocol = ''core'', method_name = ''getAccountIdDetails'', args = [i]\<rparr>
           = Rejected err"
    and "account_count env = Inl e"
  shows "setInstance env d ob = (Pending, d, [Thrown e])"
  using assms by (simp add: setInstance_def setInstance_catch_def)

theorem setInstance_count_failure_witness:
  "account_count offline_env = Inl (Error ''connection not open'') \<and>
   setInstance offline_env sample_dsa (JNum 12)
     = (Pending, sample_dsa, [Thrown (Error ''connection not open'')])"
  using setInstance_count_failure
    [OF sample_id offline_read_12, of "Error ''connection not open''" sample_dsa]
  by (simp add: offline_env_def)

text \<open>
  C9, as the code has it: \<^verbatim>\<open>read\<close> makes no check of the registry. For a protocol
  name absent from it, the contract is built from an \<^verbatim>\<open>undefined\<close> interface and
  address, and the promise is settled: it resolves with a value exactly when the
  contract library builds that contract, the contract has the method asked for, and
  the method and its call succeed with that value; otherwise it is rejected, in
  particular when the library refuses the missing interface.
\<close>

theorem read_absent_protocol:
  assumes "map_of (read_ABI env) (protocol s) = None"
    and "map_of (read_address env) (protocol s) = None"
  shows "(read env s = Resolved v \<longleftrightarrow>
            (\<exists>c f m. Contract env JUndefined JUndefined = Inr c \<and>
                     methods c (method_name s) = Some f \<and>
                     f (args s) = Inr m \<and> call m = Inr v)) \<and>
         (is_rejected (read env s) \<longleftrightarrow>
            \<not> (\<exists>c f m w. Contract env JUndefined JUndefined = Inr c \<and>
                     methods c (method_name s) = Some f \<and>
                     f (args s) = Inr m \<and> call m = Inr w)) \<and>
         read env s \<noteq> Pending \<and>
         (refuses_missing_interface env JUndefined (method_name s) \<longrightarrow> is_rejected (read env s))"
  using assms
  by (auto simp: read_def field_def refuses_missing_interface_def split: sum.splits option.splits)

theorem read_absent_protocol_witness:
  "map_of (read_ABI sample_env) ''compound'' = None \<and>
   map_of (read_address sample_env) ''compound'' = None \<and>
   refuses_missing_interface sample_env JUndefined ''getPosition'' \<and>
   read sample_env \<lparr>protocol = ''compound'', method_name = ''getPosition'', args = []\<rparr>
     = Rejected (Error ''You must provide the json interface of the contract'')"
  using read_absent_protocol
    [of sample_env "\<lparr>protocol = ''compound'', method_name = ''getPosition'', args = []\<rparr>" JUndefined]
  by (simp add: read_def sample_env_def sample_contract_def field_def refuses_missing_interface_def)

text \<open>
  C9 as stated fails: nothing in \<^verbatim>\<open>read\<close> refuses an absent protocol, so with a contract
  library that accepts an \<^verbatim>\<open>undefined\<close> interface it resolves with \<^verbatim>\<open>undefined\<close>.
\<close>

theorem read_absent_protocol_resolves:
  "map_of (read_ABI lax_env) ''compound'' = None \<and>
   map_of (read_address lax_env) ''compound'' = None \<and>
   read lax_env \<lparr>protocol = ''compound'', method_name = ''getPosition'', args = []\<rparr>
     = Resolved JUndefined"
  by (simp add: read_def lax_env_def lax_contract_def sample_env_def field_def)

section \<open>Building an account\<close>

lemma default_field_unset: "\<not> truthy (field d k) \<Longrightarrow> default_field k v d = AList.update k v d"
  by (simp add: default_field_def)

lemma default_field_set: "truthy (field d k) \<Longrightarrow> default_field k v d = d"
  by (simp add: default_field_def)

text \<open>
  The encoding steps either fail, in the same way whatever follows them, or give the
  call data to what follows.
\<close>

lemma encoded_then_cases:
  obtains (fails) e evs where
      "encode_call env abi addr name cargs = Inl e"
      "\<And>k :: jsval \<Rightarrow> jsval promise \<times> event list.
         encoded_then env abi addr name cargs k = (Rejected e, evs)"
      "\<not> list_ex is_submission evs" "\<forall>y. GetTxObj y \<notin> set evs"
  | (encodes) cd where
      "encode_call env abi addr name cargs = Inr cd"
      "\<And>k :: jsval \<Rightarrow> jsval promise \<times> event list.
         encoded_then env abi addr name cargs k = after (EncodeCall name cargs) (k cd)"
proof (cases "Contract env abi addr")
  case (Inl e)
  then show ?thesis
    by (intro fails [of e "[]"]) (simp_all add: encode_call_def encoded_then_def)
next
  case c: (Inr c)
  show ?thesis
  proof (cases "methods c name")
    case None
    with c show ?thesis
      by (intro fails [of TypeError "[]"]) (simp_all add: encode_call_def encoded_then_def)
  next
    case f: (Some f)
    show ?thesis
    proof (cases "f cargs")
      case (Inl e)
      with c f show ?thesis
        by (intro fails [of e "[EncodeCall name cargs]"])
           (simp_all add: encode_call_def encoded_then_def after_def)
    next
      case m: (Inr m)
      show ?thesis
      proof (cases "encodeABI m")
        case (Inl e)
        with c f m show ?thesis
          by (intro fails [of e "[EncodeCall name cargs]"])
             (simp_all add: encode_call_def encoded_then_def after_def)
      next
        case (Inr cd)
        with c f m show ?thesis
          by (intro encodes [of cd]) (simp_all add: encode_call_def encoded_then_def)
      qed
    qed
  qed
qed



text \<open>
  C2, where the code departs from it: without a parameter object, or with an empty
  one, \<^verbatim>\<open>buildTxObj\<close> assembles nothing. It is rejected with the ReferenceError of the
  undeclared \<^verbatim>\<open>_addr\<close> before anything is encoded, where \<^verbatim>\<open>build\<close> on the same input
  assembles the transaction with the signer address as authority and sends it.
\<close>

theorem buildTxObj_without_authority:
  "buildTxObj env d None = (Rejected (ReferenceError ''_addr''), []) \<and>
   buildTxObj env d (Some []) = (Rejected (ReferenceError ''_addr''), []) \<and>
   fst (build sample_env sample_dsa None) = Resolved (JStr ''0xHash'')"
  by (simp add: buildTxObj_def field_def)
     (simp add: build_def build_params_def build_send_def sample_env_def sample_dsa_def
      sample_contract_def encoded_then_def default_field_def field_def after_def settled_def
      Let_def)

text \<open>
  With an authority given, \<^verbatim>\<open>buildTxObj\<close> encodes the same build call as \<^verbatim>\<open>build\<close> and
  sends nothing; the object it hands to \<^verbatim>\<open>getTxObj\<close> is the one of \<^verbatim>\<open>build\<close> when a
  from address is given too (it has no default for it).
\<close>

lemma buildTxObj_params_agree:
  assumes "truthy (field x ''authority'')" and "truthy (field x ''from'')"
  shows "build_params env d addr (Some x) =
           AList.update ''to'' (core_index_address env)
             (default_field ''origin'' (origin d) (default_field ''version'' (JNum 1) x))"
proof -
  have a: "default_field ''authority'' addr x = x"
    using assms(1) by (simp add: default_field_def)
  have "truthy (field (default_field ''origin'' (origin d) (default_field ''version'' (JNum 1) x)) ''from'')"
    using assms(2) by (simp add: field_default)
  then have f: "default_field ''from'' addr
                  (default_field ''origin'' (origin d) (default_field ''version'' (JNum 1) x))
                = default_field ''origin'' (origin d) (default_field ''version'' (JNum 1) x)"
    by (simp add: default_field_def)
  show ?thesis by (simp add: build_params_def a f)
qed

lemma buildTxObj_with_authority:
  assumes "truthy (field x ''authority'')" and "truthy (field x ''from'')"
    and "getAddress env = Inr addr"
  shows "\<not> list_ex is_submission (snd (buildTxObj env d (Some x))) \<and>
         (\<forall>y. GetTxObj y \<in> set (snd (buildTxObj env d (Some x)))
                 \<longleftrightarrow> GetTxObj y \<in> set (snd (build env d (Some x))))"
proof -
  let ?d1 = "AList.update ''to'' (core_index_address env)
             (default_field ''origin'' (origin d) (default_field ''version'' (JNum 1) x))"
  let ?cargs = "[field ?d1 ''authority'', field ?d1 ''version'', field ?d1 ''origin'']"
  have b: "build_params env d addr (Some x) = ?d1"
    using assms(1,2) by (rule buildTxObj_params_agree)
  show ?thesis
  proof (cases rule: encoded_then_cases
      [of env "core_index_ABI env" "core_index_address env" "''build''" ?cargs])
    case (fails e evs)
    then show ?thesis
      using assms(1,3) b by (simp add: buildTxObj_def build_def Let_def snd_after)
  next
    case (encodes cd)
    then show ?thesis
      using assms(1,3) b
      by (cases "getTxObj env (AList.update ''callData'' cd ?d1)";
          cases "fst (getTxObj env (AList.update ''callData'' cd ?d1))")
         (simp_all add: buildTxObj_def build_def build_send_def Let_def snd_after snd_settled)
  qed
qed

section \<open>Casting with an unsupported routing type\<close>

lemma cast_submit_unsupported:
  assumes "\<not> loose_eq_num (Number_string env) ty 0"
    and "\<not> loose_eq_num (Number_string env) ty 1"
  shows "cast_submit env d cfg ty tx = (Pending, [Thrown (Error ''`type` is not vaild'')])"
  using assms by (simp add: cast_submit_def)

lemma cast_gnosis_no_GetTxObj: "GetTxObj y \<notin> set (snd (cast_gnosis env d cfg tx))"
  by (simp add: cast_gnosis_def Let_def snd_after split: option.splits sum.splits)

lemma cast_submit_no_GetTxObj: "GetTxObj y \<notin> set (snd (cast_submit env d cfg ty tx))"
  by (simp add: cast_submit_def snd_after snd_settled cast_gnosis_no_GetTxObj)

text \<open>The executor asks for one transaction object, for the request it is given.\<close>

lemma cast_send_GetTxObj:
  "GetTxObj y \<in> set (snd (cast_send env d cfg d3)) \<longleftrightarrow> y = JObj d3"
  by (cases "getTxObj env d3"; cases "fst (getTxObj env d3)")
     (auto simp: cast_send_def snd_after cast_submit_no_GetTxObj)

lemma cast_send_unsupported:
  assumes "\<forall>tx x'. getTxObj env d3 = (Inr tx, x') \<longrightarrow>
             \<not> loose_eq_num (Number_string env) (field x' ''type'') 0 \<and>
             \<not> loose_eq_num (Number_string env) (field x' ''type'') 1"
  shows "\<not> list_ex is_submission (snd (cast_send env d cfg d3))"
proof (cases "getTxObj env d3")
  case (Pair r d4)
  show ?thesis
  proof (cases r)
    case (Inl e)
    with Pair show ?thesis by (simp add: cast_send_def snd_after)
  next
    case (Inr tx)
    with Pair assms have "\<not> loose_eq_num (Number_string env) (field d4 ''type'') 0"
      and "\<not> loose_eq_num (Number_string env) (field d4 ''type'') 1"
      by blast+
    with Pair Inr show ?thesis
      by (simp add: cast_send_def snd_after cast_submit_unsupported)
  qed
qed

text \<open>
  C1, as the code has it: in the first class, a \<^verbatim>\<open>cast\<close> whose routing type is neither
  0 nor 1 submits no transaction, the routing type being the one \<^verbatim>\<open>cast\<close> tests: the
  \<^verbatim>\<open>type\<close> it copies from the configuration of the selected instance into the
  request, as it reads it back from the request once \<^verbatim>\<open>getTxObj\<close> has answered.
\<close>

theorem cast_unsupported_type:
  assumes "\<forall>x tx x'. GetTxObj (JObj x) \<in> set (snd (cast env d p)) \<and>
                     getTxObj env x = (Inr tx, x') \<longrightarrow>
             \<not> loose_eq_num (Number_string env) (field x' ''type'') 0 \<and>
             \<not> loose_eq_num (Number_string env) (field x' ''type'') 1"
  shows "\<not> list_ex is_submission (snd (cast env d p)) \<and>
         (\<forall>x. GetTxObj (JObj x) \<in> set (snd (cast env d p)) \<longrightarrow>
              (\<exists>cfg. config (cur_instance d) = Some cfg \<and> field x ''type'' = type cfg))"
proof (cases "getAddress env")
  case (Inl e)
  then show ?thesis by (simp add: cast_def snd_after)
next
  case addr: (Inr addr)
  show ?thesis
  proof (cases "encodeSpells env p")
    case (Pair r p0)
    show ?thesis
    proof (cases r)
      case (Inl e)
      with addr Pair show ?thesis by (simp add: cast_def snd_after)
    next
      case es: (Inr espell)
      show ?thesis
      proof (cases "config (cur_instance d)")
        case None
        with addr Pair es show ?thesis by (simp add: cast_def Let_def snd_after)
      next
        case (Some cfg)
        let ?d2 = "AList.update ''type'' (type cfg)
                   (default_field ''origin'' (origin d)
                     (default_field ''from'' addr
                       (default_field ''to'' (address (cur_instance d)) p0)))"
        have c: "cast env d p =
                 after GetAddress (after (EncodeSpells (JObj p))
                   (encoded_then env (core_account_ABI env) (address (cur_instance d)) ''cast''
                      (espell @ [field ?d2 ''origin''])
                      (\<lambda>cd. cast_send env d cfg (AList.update ''callData'' cd ?d2))))"
          using addr Pair es Some by (simp add: cast_def Let_def)
        show ?thesis
        proof (cases rule: encoded_then_cases
            [of env "core_account_ABI env" "address (cur_instance d)" "''cast''"
                "espell @ [field ?d2 ''origin'']"])
          case (fails e evs)
          then show ?thesis by (simp add: c snd_after)
        next
          case (encodes cd)
          let ?d3 = "AList.update ''callData'' cd ?d2"
          have tr: "snd (cast env d p) =
                      GetAddress # EncodeSpells (JObj p) #
                      EncodeCall ''cast'' (espell @ [field ?d2 ''origin'']) #
                      snd (cast_send env d cfg ?d3)"
            using encodes by (simp add: c snd_after)
          have ty: "field ?d3 ''type'' = type cfg"
            by (simp add: field_update)
          have "GetTxObj (JObj ?d3) \<in> set (snd (cast env d p))"
            by (simp add: tr cast_send_GetTxObj)
          with assms have "\<forall>tx x'. getTxObj env ?d3 = (Inr tx, x') \<longrightarrow>
             \<not> loose_eq_num (Number_string env) (field x' ''type'') 0 \<and>
             \<not> loose_eq_num (Number_string env) (field x' ''type'') 1"
            by blast
          from cast_send_unsupported [OF this, of d cfg]
          have ns: "\<not> list_ex is_submission (snd (cast env d p))"
            by (simp add: tr)
          have "\<forall>x. GetTxObj (JObj x) \<in> set (snd (cast env d p)) \<longrightarrow> field x ''type'' = type cfg"
            using ty by (simp add: tr cast_send_GetTxObj)
          with ns Some show ?thesis by simp
        qed
      qed
    qed
  qed
qed

text \<open>A run with routing type 2.\<close>

lemma sample_cast_type2:
  "snd (cast sample_env sample_dsa_type2 sample_spells) =
      [GetAddress,
       EncodeSpells (JObj sample_spells),
       EncodeCall ''cast'' [JArr [JStr ''basic''], JArr [JStr ''0xab''], JStr ''0xGenesis''],
       GetTxObj (JObj (sample_spells @
          [(''to'', JStr ''0xGenesis''), (''from'', JStr ''0xSigner''), (''origin'', JStr ''0xGenesis''),
           (''type'', JNum 2),
           (''callData'', JArr [JStr ''cast'', JArr [JStr ''basic''], JArr [JStr ''0xab''],
                                JStr ''0xGenesis''])])),
       Thrown (Error ''`type` is not vaild'')]"
  by (simp add: cast_def cast_send_def cast_submit_def sample_env_def sample_dsa_def
      sample_dsa_type2_def sample_spells_def sample_contract_def
      encoded_then_def default_field_def field_def after_def settled_def Let_def)

theorem cast_unsupported_type_witness:
  "config (cur_instance sample_dsa_type2) = Some \<lparr>type = JNum 2, gnosisSafe = JUndefined\<rparr> \<and>
   \<not> list_ex is_submission (snd (cast sample_env sample_dsa_type2 sample_spells)) \<and>
   snd (cast sample_env sample_dsa_type2 sample_spells) =
      [GetAddress,
       EncodeSpells (JObj sample_spells),
       EncodeCall ''cast'' [JArr [JStr ''basic''], JArr [JStr ''0xab''], JStr ''0xGenesis''],
       GetTxObj (JObj (sample_spells @
          [(''to'', JStr ''0xGenesis''), (''from'', JStr ''0xSigner''), (''origin'', JStr ''0xGenesis''),
           (''type'', JNum 2),
           (''callData'', JArr [JStr ''cast'', JArr [JStr ''basic''], JArr [JStr ''0xab''],
                                JStr ''0xGenesis''])])),
       Thrown (Error ''`type` is not vaild'')]"
proof -
  have c: "config (cur_instance sample_dsa_type2) = Some \<lparr>type = JNum 2, gnosisSafe = JUndefined\<rparr>"
    by (simp add: sample_dsa_type2_def)
  have h: "\<forall>x tx x'. GetTxObj (JObj x) \<in> set (snd (cast sample_env sample_dsa_type2 sample_spells)) \<and>
             getTxObj sample_env x = (Inr tx, x') \<longrightarrow>
             \<not> loose_eq_num (Number_string sample_env) (field x' ''type'') 0 \<and>
             \<not> loose_eq_num (Number_string sample_env) (field x' ''type'') 1"
  proof (intro allI impI, elim conjE)
    fix x tx x'
    assume m: "GetTxObj (JObj x) \<in> set (snd (cast sample_env sample_dsa_type2 sample_spells))"
      and g: "getTxObj sample_env x = (Inr tx, x')"
    from m have x: "x = sample_spells @
          [(''to'', JStr ''0xGenesis''), (''from'', JStr ''0xSigner''), (''origin'', JStr ''0xGenesis''),
           (''type'', JNum 2),
           (''callData'', JArr [JStr ''cast'', JArr [JStr ''basic''], JArr [JStr ''0xab''],
                                JStr ''0xGenesis''])]"
      by (simp add: sample_cast_type2)
    from g have "x' = x" by (auto simp: sample_env_def)
    then have "field x' ''type'' = JNum 2"
      by (simp add: x field_def sample_spells_def)
    then show "\<not> loose_eq_num (Number_string sample_env) (field x' ''type'') 0 \<and>
             \<not> loose_eq_num (Number_string sample_env) (field x' ''type'') 1"
      by simp
  qed
  from cast_unsupported_type [OF h] c sample_cast_type2
  show ?thesis by simp
qed

text \<open>
  C1 as stated fails. The \<^verbatim>\<open>cast\<close> of the second class has no routing type: with
  type 2 on the selected instance it sends the transaction and resolves. And the
  \<^verbatim>\<open>cast\<close> of the first class tests the type it reads back from the request: with
  no type in the configuration and a helper that fills one in, it sends as well.
\<close>

theorem cast_v2_ignores_type:
  "fst (cast_v2 sample_env sample_dsa_type2 sample_spells) = Resolved (JStr ''0xHash'') \<and>
   list_ex is_submission (snd (cast_v2 sample_env sample_dsa_type2 sample_spells)) \<and>
   list_ex is_submission (snd (cast filling_env sample_dsa_untyped sample_spells))"
  by (simp add: cast_v2_def cast_def cast_send_def cast_submit_def filling_env_def
      sample_env_def sample_dsa_def sample_dsa_type2_def sample_dsa_untyped_def
      sample_spells_def sample_contract_def
      encoded_then_def default_field_def field_def after_def settled_def Let_def)

section \<open>The instance without a configuration\<close>

lemma constructor_no_config:
  "fst (constructor env c) = Some d \<Longrightarrow> config (cur_instance d) = None"
  by (auto simp: constructor_def Let_def split: if_splits)

lemma sample_constructed: "constructor sample_env None = (Some sample_dsa, [])"
  by (simp add: constructor_def sample_env_def sample_dsa_def)

text \<open>\<^verbatim>\<open>setInstance\<close> installs no configuration either.\<close>

lemma setInstance_catch_keeps: "fst (snd (setInstance_catch env d i e)) = d"
  by (simp add: setInstance_catch_def split: sum.splits)

lemma setInstance_keeps_config:
  "config (cur_instance (fst (snd (setInstance env d ob)))) = config (cur_instance d)"
  by (simp add: setInstance_def Let_def setInstance_catch_keeps
      split: sum.splits promise.splits)

lemma cast_no_config:
  assumes "config (cur_instance d) = None"
  shows "cast env d p =
           (case getAddress env of
              Inl e \<Rightarrow> (Rejected e, [GetAddress])
            | Inr a \<Rightarrow>
                (case fst (encodeSpells env p) of
                   Inl e \<Rightarrow> (Rejected e, [GetAddress, EncodeSpells (JObj p)])
                 | Inr es \<Rightarrow> (Rejected TypeError, [GetAddress, EncodeSpells (JObj p)])))"
  using assms
  by (cases "encodeSpells env p")
     (simp add: cast_def Let_def after_def split: sum.splits)

lemma castTxObj_no_config:
  assumes "config (cur_instance d) = None"
  shows "castTxObj env d p =
           (case fst (encodeSpells env p) of
              Inl e \<Rightarrow> (Rejected e, [EncodeSpells (JObj p)])
            | Inr es \<Rightarrow> (Rejected TypeError, [EncodeSpells (JObj p)]))"
  using assms
  by (cases "encodeSpells env p")
     (simp add: castTxObj_def Let_def after_def split: sum.splits)

text \<open>
  C10, as the code has it: in the first class, while the selected instance has no
  \<^verbatim>\<open>config\<close> (as the one the constructor installs), \<^verbatim>\<open>estimateCastGas\<close> is rejected
  with a TypeError before anything else is done, and \<^verbatim>\<open>cast\<close> and \<^verbatim>\<open>castTxObj\<close> are
  rejected without encoding the cast call, asking for a transaction object or
  submitting anything; they have by then asked for the signer address (\<^verbatim>\<open>cast\<close>) and
  for the encoded spells (both). The rejection is the TypeError when these succeeded,
  and the error of the first of them that failed otherwise.
\<close>

theorem no_config_fails:
  assumes "config (cur_instance d) = None"
  shows "(\<forall>c d0. fst (constructor env c) = Some d0 \<longrightarrow> config (cur_instance d0) = None) \<and>
         estimateCastGas env d p = (Rejected TypeError, []) \<and>
         is_rejected (fst (cast env d p)) \<and>
         is_rejected (fst (castTxObj env d p)) \<and>
         set (snd (cast env d p)) \<subseteq> {GetAddress, EncodeSpells (JObj p)} \<and>
         set (snd (castTxObj env d p)) \<subseteq> {EncodeSpells (JObj p)} \<and>
         (\<forall>a es. getAddress env = Inr a \<and> fst (encodeSpells env p) = Inr es \<longrightarrow>
            cast env d p = (Rejected TypeError, [GetAddress, EncodeSpells (JObj p)])) \<and>
         (\<forall>es. fst (encodeSpells env p) = Inr es \<longrightarrow>
            castTxObj env d p = (Rejected TypeError, [EncodeSpells (JObj p)])) \<and>
         (\<forall>e. getAddress env = Inl e \<longrightarrow> cast env d p = (Rejected e, [GetAddress])) \<and>
         (\<forall>a e. getAddress env = Inr a \<and> fst (encodeSpells env p) = Inl e \<longrightarrow>
            cast env d p = (Rejected e, [GetAddress, EncodeSpells (JObj p)])) \<and>
         (\<forall>e. fst (encodeSpells env p) = Inl e \<longrightarrow>
            castTxObj env d p = (Rejected e, [EncodeSpells (JObj p)]))"
proof -
  have ctor: "\<forall>c d0. fst (constructor env c) = Some d0 \<longrightarrow> config (cur_instance d0) = None"
    by (simp add: constructor_no_config)
  have est: "estimateCastGas env d p = (Rejected TypeError, [])"
    using assms by (simp add: estimateCastGas_def)
  note c = cast_no_config [OF assms, of env p]
  note t = castTxObj_no_config [OF assms, of env p]
  have rej: "is_rejected (fst (cast env d p))" "is_rejected (fst (castTxObj env d p))"
    by (simp_all add: c t split: sum.splits)
  have tr: "set (snd (cast env d p)) \<subseteq> {GetAddress, EncodeSpells (JObj p)}"
    "set (snd (castTxObj env d p)) \<subseteq> {EncodeSpells (JObj p)}"
    by (simp_all add: c t split: sum.splits)
  have ok: "\<forall>a es. getAddress env = Inr a \<and> fst (encodeSpells env p) = Inr es \<longrightarrow>
            cast env d p = (Rejected TypeError, [GetAddress, EncodeSpells (JObj p)])"
    "\<forall>es. fst (encodeSpells env p) = Inr es \<longrightarrow>
            castTxObj env d p = (Rejected TypeError, [EncodeSpells (JObj p)])"
    by (simp_all add: c t)
  have early: "\<forall>e. getAddress env = Inl e \<longrightarrow> cast env d p = (Rejected e, [GetAddress])"
    "\<forall>a e. getAddress env = Inr a \<and> fst (encodeSpells env p) = Inl e \<longrightarrow>
            cast env d p = (Rejected e, [GetAddress, EncodeSpells (JObj p)])"
    "\<forall>e. fst (encodeSpells env p) = Inl e \<longrightarrow>
            castTxObj env d p = (Rejected e, [EncodeSpells (JObj p)])"
    by (simp_all add: c t)
  show ?thesis by (intro conjI ctor est rej tr ok early)
qed

theorem no_config_fails_witness:
  "fst (constructor sample_env None) = Some sample_dsa \<and>
   config (cur_instance sample_dsa) = None \<and>
   estimateCastGas sample_env sample_dsa sample_spells = (Rejected TypeError, []) \<and>
   cast sample_env sample_dsa sample_spells
     = (Rejected TypeError, [GetAddress, EncodeSpells (JObj sample_spells)]) \<and>
   castTxObj sample_env sample_dsa sample_spells
     = (Rejected TypeError, [EncodeSpells (JObj sample_spells)]) \<and>
   cast (sample_env\<lparr>getAddress := Inl (Error ''no accounts'')\<rparr>) sample_dsa sample_spells
     = (Rejected (Error ''no accounts''), [GetAddress])"
proof -
  have c: "config (cur_instance sample_dsa) = None"
    by (simp add: sample_dsa_def)
  have ga: "getAddress sample_env = Inr (JStr ''0xSigner'')"
    by (simp add: sample_env_def)
  have es: "fst (encodeSpells sample_env sample_spells) = Inr [JArr [JStr ''basic''], JArr [JStr ''0xab'']]"
    by (simp add: sample_env_def)
  have na: "getAddress (sample_env\<lparr>getAddress := Inl (Error ''no accounts'')\<rparr>)
              = Inl (Error ''no accounts'')"
    by simp
  note th = no_config_fails [OF c, of sample_env sample_spells]
  note th' = no_config_fails
    [OF c, of "sample_env\<lparr>getAddress := Inl (Error ''no accounts'')\<rparr>" sample_spells]
  from th have 1: "estimateCastGas sample_env sample_dsa sample_spells = (Rejected TypeError, [])"
    by blast
  from th ga es have 2: "cast sample_env sample_dsa sample_spells
     = (Rejected TypeError, [GetAddress, EncodeSpells (JObj sample_spells)])"
    by blast
  from th es have 3: "castTxObj sample_env sample_dsa sample_spells
     = (Rejected TypeError, [EncodeSpells (JObj sample_spells)])"
    by blast
  from th' na have 4: "cast (sample_env\<lparr>getAddress := Inl (Error ''no accounts'')\<rparr>) sample_dsa
       sample_spells = (Rejected (Error ''no accounts''), [GetAddress])"
    by blast
  from c 1 2 3 4 show ?thesis by (simp add: sample_constructed)
qed

text \<open>
  C10 as stated fails: on the instance the constructor installs, \<^verbatim>\<open>cast\<close> has the
  spells encoded before it fails, and when the signer address cannot be derived it
  fails with that error, not with a TypeError.
\<close>

theorem default_instance_cast_encodes_first:
  "list_ex is_encoding (snd (cast sample_env sample_dsa sample_spells)) \<and>
   fst (cast (sample_env\<lparr>getAddress := Inl (Error ''no accounts'')\<rparr>) sample_dsa sample_spells)
     = Rejected (Error ''no accounts'')"
  by (simp add: cast_def sample_env_def sample_dsa_def after_def Let_def)

section \<open>Order of the encoded spells\<close>

lemma spell_entry_connector:
  "spell_entry enc s = Inr (c, cd) \<Longrightarrow> get_prop s ''connector'' = Inr c"
  by (auto simp: spell_entry_def split: sum.splits)

lemma encodeSpells_spec_total:
  assumes "\<forall>s \<in> set ops. \<not> isl (spell_entry enc s)"
  shows "\<exists>ta eda. encodeSpells_spec enc ops = Inr (ta, eda)"
  using assms
proof (induction ops)
  case Nil
  then show ?case by simp
next
  case (Cons s ops)
  then obtain ta eda where "encodeSpells_spec enc ops = Inr (ta, eda)" by auto
  moreover from Cons.prems obtain c cd where "spell_entry enc s = Inr (c, cd)"
    by (cases "spell_entry enc s") auto
  ultimately show ?case by simp
qed

lemma encodeSpells_spec_parallel:
  assumes "encodeSpells_spec enc ops = Inr (ta, eda)"
  shows "length ta = length ops \<and> length eda = length ops \<and>
         (\<forall>i < length ops. spell_entry enc (ops ! i) = Inr (ta ! i, eda ! i))"
  using assms
proof (induction ops arbitrary: ta eda)
  case Nil
  then show ?case by simp
next
  case (Cons s ops)
  from Cons.prems obtain c cd ta' eda' where
    s: "spell_entry enc s = Inr (c, cd)" and
    r: "encodeSpells_spec enc ops = Inr (ta', eda')" and
    e: "ta = c # ta'" "eda = cd # eda'"
    by (auto split: sum.splits prod.splits)
  from Cons.IH [OF r] s e show ?case
    by (auto simp: nth_Cons')
qed

text \<open>
  C6: for every valid spell list, \<^verbatim>\<open>encodeSpells\<close> returns two arrays as long as the
  list, and the i-th connector name and the i-th encoded call data are those of the
  i-th operation of the list.
\<close>

theorem encodeSpells_preserves_order:
  assumes "\<forall>s \<in> set ops. valid_spell enc s"
  shows "\<exists>ta eda. encodeSpells_spec enc ops = Inr (ta, eda) \<and>
           length ta = length ops \<and> length eda = length ops \<and>
           (\<forall>i < length ops.
              get_prop (ops ! i) ''connector'' = Inr (ta ! i) \<and>
              spell_entry enc (ops ! i) = Inr (ta ! i, eda ! i))"
proof -
  from assms have "\<forall>s \<in> set ops. \<not> isl (spell_entry enc s)"
    by (simp add: valid_spell_def)
  from encodeSpells_spec_total [OF this]
  obtain ta eda where r: "encodeSpells_spec enc ops = Inr (ta, eda)" by blast
  from encodeSpells_spec_parallel [OF r] r show ?thesis
    by (auto intro: spell_entry_connector)
qed

theorem encodeSpells_preserves_order_witness:
  "list_all (valid_spell sample_enc) sample_ops \<and>
   encodeSpells_spec sample_enc sample_ops =
     Inr ([JStr ''basic'', JStr ''compound''],
          [JArr [JStr ''basic'', JStr ''deposit'', JNum 1],
           JArr [JStr ''compound'', JStr ''borrow'', JNum 2]])"
  using encodeSpells_preserves_order [of sample_ops sample_enc]
  by (simp add: sample_ops_def sample_enc_def valid_spell_def has_all_fields_def spell_entry_def)

end
